theory Spec2Isabelle
  imports Complex_Main
begin

section \<open>Python values used by \<open>rag_builder.py\<close>\<close>

text \<open>
  A Python \<open>str\<close> is a sequence of Unicode code points: \<open>len\<close> counts code points and
  the chunker compares against full-width punctuation, so a string is a list of code
  points. ASCII literals are written through \<open>ascii\<close>.
\<close>

type_synonym pystr = "nat list"

definition ascii :: "string \<Rightarrow> pystr" where
  "ascii = map of_char"

text \<open>\<open>str.isspace\<close> for one code point: the characters \<open>str.strip()\<close> removes.\<close>

definition py_isspace :: "nat \<Rightarrow> bool" where
  "py_isspace c \<longleftrightarrow>
     (9 \<le> c \<and> c \<le> 13) \<or> (28 \<le> c \<and> c \<le> 32) \<or> c = 133 \<or> c = 160 \<or> c = 5760 \<or>
     (8192 \<le> c \<and> c \<le> 8202) \<or> c = 8232 \<or> c = 8233 \<or> c = 8239 \<or> c = 8287 \<or> c = 12288"

definition lstrip :: "pystr \<Rightarrow> pystr" where
  "lstrip s = dropWhile py_isspace s"

definition rstrip :: "pystr \<Rightarrow> pystr" where
  "rstrip s = rev (dropWhile py_isspace (rev s))"

definition strip :: "pystr \<Rightarrow> pystr" where
  "strip s = rstrip (lstrip s)"

text \<open>
  \<open>str.lower\<close>, on the ASCII letters. File names and extensions are the only strings
  the code lower-cases; code points outside \<open>A..Z\<close> are left as they are.
\<close>

definition lower_cp :: "nat \<Rightarrow> nat" where
  "lower_cp c = (if 65 \<le> c \<and> c \<le> 90 then c + 32 else c)"

definition py_lower :: "pystr \<Rightarrow> pystr" where
  "py_lower s = map lower_cp s"

definition endswith :: "pystr \<Rightarrow> pystr \<Rightarrow> bool" where
  "endswith s suffix \<longleftrightarrow>
     length suffix \<le> length s \<and> drop (length s - length suffix) s = suffix"

text \<open>Values a metadata dict holds; a dict with \<open>str\<close> keys is a map.\<close>

datatype pyval = VStr pystr | VInt int | VNone

type_synonym metadata = "pystr \<rightharpoonup> pyval"

text \<open>Every exception the engine can raise, as a value.\<close>

datatype error =
    UnsupportedFormat pystr  \<comment> \<open>\<open>ValueError\<close> of \<open>extract_text_from_file\<close>\<close>
  | ExtractionFailed         \<comment> \<open>\<open>Exception\<close> re-raised by the three readers\<close>
  | SegmenterFailed          \<comment> \<open>an exception out of \<open>self.nlp(text)\<close>\<close>
  | EmbeddingFailed          \<comment> \<open>\<open>Exception\<close> re-raised by \<open>get_embeddings\<close>\<close>
  | EmptyDocuments           \<comment> \<open>\<open>ValueError\<close> of \<open>build_index\<close>\<close>
  | IndexError               \<comment> \<open>a tuple or list index out of range\<close>
  | ShapeError               \<comment> \<open>\<open>n, d = x.shape\<close> on an array that is not 2-D\<close>
  | AssertionError           \<comment> \<open>an assertion of the vector index\<close>
  | PrintFailed              \<comment> \<open>an exception out of \<open>print\<close>, as \<open>UnicodeEncodeError\<close>\<close>

text \<open>List indexing as Python does it: a negative index counts from the end.\<close>

definition py_getitem :: "'a list \<Rightarrow> int \<Rightarrow> error + 'a" where
  "py_getitem xs i =
     (if 0 \<le> i \<and> i < int (length xs) then Inr (xs ! nat i)
      else if i < 0 \<and> - int (length xs) \<le> i then Inr (xs ! nat (int (length xs) + i))
      else Inl IndexError)"

section \<open>The collaborators: files, sentence segmenter, embedding service, clock, console\<close>

text \<open>
  A JSON value made of numbers and lists: what one \<open>embedding\<close> entry of the service's
  answer can be. The service is trusted for nothing: an entry may be a number, a list of
  numbers or lists nested to any depth.
\<close>

datatype nested = Num real | Arr "nested list"

text \<open>
  What the engine reads from outside the process is a parameter of every operation:
  the outcome of opening each kind of file (\<open>None\<close> when the reader raises), the
  sentence texts the segmenter yields, the list of \<open>embedding\<close> entries the service
  answers with (\<open>None\<close> for a transport error, a non-2xx status or a body without the
  expected keys), the readings of the clock, and whether standard output accepts the
  line \<open>add_documents_from_folder\<close> prints for a file name: the success line
  (\<open>None\<close>) or the failure line for an exception.
\<close>

record env =
  pdf_pages :: "pystr \<Rightarrow> pystr list option"
  docx_paragraphs :: "pystr \<Rightarrow> pystr list option"
  txt_content :: "pystr \<Rightarrow> pystr option"
  nlp_sents :: "pystr \<Rightarrow> pystr list option"
  embed_api :: "pystr list \<Rightarrow> nested list option"
  now_iso :: "nat \<Rightarrow> pystr"
  print_ok :: "pystr \<Rightarrow> error option \<Rightarrow> bool"

section \<open>Text extraction\<close>

definition extract_text_from_pdf :: "env \<Rightarrow> pystr \<Rightarrow> error + pystr" where
  "extract_text_from_pdf e file_path =
     (case pdf_pages e file_path of
        None \<Rightarrow> Inl ExtractionFailed
      | Some pages \<Rightarrow> Inr (concat (map (\<lambda>page. page @ [10]) pages)))"

fun join_lines :: "pystr list \<Rightarrow> pystr" where
  "join_lines [] = []"
| "join_lines [p] = p"
| "join_lines (p # q # ps) = p @ [10] @ join_lines (q # ps)"

definition extract_text_from_docx :: "env \<Rightarrow> pystr \<Rightarrow> error + pystr" where
  "extract_text_from_docx e file_path =
     (case docx_paragraphs e file_path of
        None \<Rightarrow> Inl ExtractionFailed
      | Some paragraphs \<Rightarrow> Inr (join_lines paragraphs))"

definition extract_text_from_txt :: "env \<Rightarrow> pystr \<Rightarrow> error + pystr" where
  "extract_text_from_txt e file_path =
     (case txt_content e file_path of
        None \<Rightarrow> Inl ExtractionFailed
      | Some t \<Rightarrow> Inr t)"

definition extract_text_from_file :: "env \<Rightarrow> pystr \<Rightarrow> error + pystr" where
  "extract_text_from_file e file_path =
     (if endswith (py_lower file_path) (ascii ''.pdf'') then extract_text_from_pdf e file_path
      else if endswith (py_lower file_path) (ascii ''.docx'') then extract_text_from_docx e file_path
      else if endswith (py_lower file_path) (ascii ''.txt'') then extract_text_from_txt e file_path
      else Inl (UnsupportedFormat file_path))"

section \<open>The chunker\<close>

text \<open>
  One round of the packing loop of \<open>split_text\<close>: the pair is \<open>(chunks, current_chunk)\<close>.
  \<open>chunk_size\<close> is a Python \<open>int\<close>.
\<close>

definition pack_step :: "int \<Rightarrow> pystr list \<times> pystr \<Rightarrow> pystr \<Rightarrow> pystr list \<times> pystr" where
  "pack_step chunk_size acc sentence =
     (case acc of (chunks, current_chunk) \<Rightarrow>
        if int (length current_chunk) + int (length sentence) \<le> chunk_size
        then (chunks, current_chunk @ sentence @ [32])
        else (if current_chunk \<noteq> [] then chunks @ [strip current_chunk] else chunks,
              sentence @ [32]))"

definition flush :: "pystr list \<times> pystr \<Rightarrow> pystr list" where
  "flush acc =
     (case acc of (chunks, current_chunk) \<Rightarrow>
        if current_chunk \<noteq> [] then chunks @ [strip current_chunk] else chunks)"

definition pack :: "int \<Rightarrow> pystr list \<times> pystr \<Rightarrow> pystr list \<Rightarrow> pystr list \<times> pystr" where
  "pack chunk_size acc sentences = foldl (pack_step chunk_size) acc sentences"

text \<open>\<open>[s.strip() for s in xs if s.strip()]\<close>\<close>

definition stripped_nonempty :: "pystr list \<Rightarrow> pystr list" where
  "stripped_nonempty xs = filter (\<lambda>s. s \<noteq> []) (map strip xs)"

text \<open>
  \<open>re.split(r'(?<=[\<dots>])', text)\<close> with the five sentence-final marks (ideographic
  full stop, full-width and ASCII exclamation and question marks): the text is cut after
  every such mark, also after one that ends the text, which leaves an empty last piece.
\<close>

definition sentence_final :: "nat \<Rightarrow> bool" where
  "sentence_final c \<longleftrightarrow> c = 12290 \<or> c = 65281 \<or> c = 65311 \<or> c = 33 \<or> c = 63"

fun split_after :: "pystr \<Rightarrow> pystr \<Rightarrow> pystr list" where
  "split_after piece [] = [piece]"
| "split_after piece (c # cs) =
     (if sentence_final c then (piece @ [c]) # split_after [] cs
      else split_after (piece @ [c]) cs)"

definition re_split_sentences :: "pystr \<Rightarrow> pystr list" where
  "re_split_sentences text = split_after [] text"

definition split_text :: "env \<Rightarrow> pystr \<Rightarrow> int \<Rightarrow> error + pystr list" where
  "split_text e text chunk_size =
     (case nlp_sents e text of
        None \<Rightarrow> Inl SegmenterFailed
      | Some sents \<Rightarrow>
          let sentences = stripped_nonempty sents;
              acc = pack chunk_size ([], []) sentences;
              chunks = flush acc
          in if chunks = []
             then Inr (flush (pack chunk_size (chunks, snd acc)
                                (stripped_nonempty (re_split_sentences text))))
             else Inr chunks)"

section \<open>Embeddings and the flat vector index\<close>

text \<open>
  \<open>np.array(embeddings).astype('float32')\<close>: the entries of the answer as one array. The
  conversion raises when the entries do not fit one shape (rows of unequal length, a
  number beside a list), which \<open>get_embeddings\<close> re-raises like every other failure;
  otherwise the array has the shape computed here, of any number of dimensions. An empty
  answer is the 1-D array of shape \<open>(0,)\<close>. Components are reals; rounding to 32 bits is
  not modelled.
\<close>

fun np_shape :: "nested \<Rightarrow> nat list option" where
  "np_shape (Num _) = Some []"
| "np_shape (Arr xs) =
     (case map np_shape xs of
        [] \<Rightarrow> Some [0]
      | None # _ \<Rightarrow> None
      | Some sh # rest \<Rightarrow>
          if list_all (\<lambda>t. t = Some sh) rest then Some (length xs # sh) else None)"

text \<open>An array is its shape together with its entries.\<close>

type_synonym ndarray = "nat list \<times> nested"

definition get_embeddings :: "env \<Rightarrow> pystr list \<Rightarrow> error + ndarray" where
  "get_embeddings e texts =
     (case embed_api e texts of
        None \<Rightarrow> Inl EmbeddingFailed
      | Some embeddings \<Rightarrow>
          (case np_shape (Arr embeddings) of
             None \<Rightarrow> Inl EmbeddingFailed
           | Some sh \<Rightarrow> Inr (sh, Arr embeddings)))"

text \<open>\<open>x.shape[1]\<close>: a tuple index, out of range for a 1-D array.\<close>

definition shape1 :: "ndarray \<Rightarrow> error + nat" where
  "shape1 x = (if length (fst x) < 2 then Inl IndexError else Inr (fst x ! 1))"

text \<open>The rows of a 2-D array, as the index stores them.\<close>

fun items :: "nested \<Rightarrow> nested list" where
  "items (Arr xs) = xs"
| "items (Num _) = []"

fun num_of :: "nested \<Rightarrow> real" where
  "num_of (Num r) = r"
| "num_of (Arr _) = 0"

definition rows_of :: "ndarray \<Rightarrow> real list list" where
  "rows_of x = map (\<lambda>row. map num_of (items row)) (items (snd x))"

text \<open>
  \<open>faiss.IndexFlatL2\<close>: the dimension \<open>d\<close> and the stored vectors in insertion order
  (\<open>ntotal\<close> is their number). \<open>add\<close> and \<open>search\<close> unpack \<open>n, d = x.shape\<close>, which
  raises unless the array is 2-D, and assert that \<open>d\<close> is the index's; \<open>search\<close>
  asserts \<open>k > 0\<close> and returns, for each query row, exactly \<open>k\<close> distances and \<open>k\<close>
  labels in ascending squared Euclidean distance. When the index holds fewer than \<open>k\<close>
  vectors the missing places carry the label \<open>-1\<close> and the largest 32-bit float as
  distance.
\<close>

record faiss_index =
  d :: nat
  vecs :: "real list list"

definition IndexFlatL2 :: "nat \<Rightarrow> faiss_index" where
  "IndexFlatL2 dimension = \<lparr>d = dimension, vecs = []\<rparr>"

definition ntotal :: "faiss_index \<Rightarrow> nat" where
  "ntotal ix = length (vecs ix)"

definition faiss_add :: "faiss_index \<Rightarrow> ndarray \<Rightarrow> error + faiss_index" where
  "faiss_add ix x =
     (if length (fst x) \<noteq> 2 then Inl ShapeError
      else if fst x ! 1 \<noteq> d ix then Inl AssertionError
      else Inr (ix\<lparr>vecs := vecs ix @ rows_of x\<rparr>))"

definition l2sq :: "real list \<Rightarrow> real list \<Rightarrow> real" where
  "l2sq u v = sum_list (map (\<lambda>(a, b). (a - b) * (a - b)) (zip u v))"

definition FLT_MAX :: real where
  "FLT_MAX = 340282346638528859811704183484516925440"

definition search_row :: "faiss_index \<Rightarrow> real list \<Rightarrow> nat \<Rightarrow> real list \<times> int list" where
  "search_row ix q k =
     (let hits = take k (sort_key (\<lambda>i. l2sq (vecs ix ! i) q) [0..<ntotal ix]);
          missing = k - length hits
      in (map (\<lambda>i. l2sq (vecs ix ! i) q) hits @ replicate missing FLT_MAX,
          map int hits @ replicate missing (- 1)))"

definition faiss_search ::
  "faiss_index \<Rightarrow> ndarray \<Rightarrow> int \<Rightarrow> error + (real list list \<times> int list list)" where
  "faiss_search ix x k =
     (if length (fst x) \<noteq> 2 then Inl ShapeError
      else if fst x ! 1 \<noteq> d ix then Inl AssertionError
      else if k \<le> 0 then Inl AssertionError
      else Inr (map (\<lambda>q. fst (search_row ix q (nat k))) (rows_of x),
                map (\<lambda>q. snd (search_row ix q (nat k))) (rows_of x)))"

section \<open>The engine's state\<close>

record rag =
  embedding_model :: pystr
  index :: "faiss_index option"
  documents :: "pystr list"
  document_metadata :: "metadata list"

definition init :: "pystr \<Rightarrow> rag" where
  "init model = \<lparr>embedding_model = model, index = None, documents = [], document_metadata = []\<rparr>"

text \<open>
  Every operation that assigns to \<open>self\<close> returns the state it leaves behind together
  with its outcome, also when it raises: an assignment made before the exception stays.
\<close>

subsection \<open>\<open>build_index\<close>\<close>

definition build_index ::
  "env \<Rightarrow> rag \<Rightarrow> pystr list \<Rightarrow> metadata list option \<Rightarrow> rag \<times> (error + unit)" where
  "build_index e st docs meta =
     (if docs = [] then (st, Inl EmptyDocuments)
      else (case get_embeddings e docs of
        Inl err \<Rightarrow> (st, Inl err)
      | Inr embeddings \<Rightarrow>
          (case shape1 embeddings of
             Inl err \<Rightarrow> (st, Inl err)
           | Inr dimension \<Rightarrow>
               let st1 = st\<lparr>index := Some (IndexFlatL2 dimension)\<rparr>
               in (case faiss_add (IndexFlatL2 dimension) embeddings of
                    Inl err \<Rightarrow> (st1, Inl err)
                  | Inr ix \<Rightarrow>
                      (st1\<lparr>index := Some ix,
                           documents := docs,
                           document_metadata :=
                             (case meta of
                                None \<Rightarrow> map (\<lambda>_. Map.empty) docs
                              | Some m \<Rightarrow>
                                  (if m \<noteq> [] then m else map (\<lambda>_. Map.empty) docs))\<rparr>,
                       Inr ())))))"

subsection \<open>\<open>add_document\<close>\<close>

record add_result =
  file_path :: pystr
  chunk_count :: nat
  total_chunks :: nat

text \<open>\<open>os.path.basename\<close>: what follows the last slash.\<close>

definition basename :: "pystr \<Rightarrow> pystr" where
  "basename p = rev (takeWhile (\<lambda>c. c \<noteq> 47) (rev p))"

text \<open>
  The dict built for one chunk; \<open>i\<close> numbers the clock readings of the call. The caller's
  entries come last in the dict display, so they win over the three standard keys.
\<close>

definition chunk_metadata :: "env \<Rightarrow> pystr \<Rightarrow> metadata option \<Rightarrow> nat \<Rightarrow> metadata" where
  "chunk_metadata e path meta i =
     [ascii ''file_path'' \<mapsto> VStr path,
      ascii ''file_name'' \<mapsto> VStr (basename path),
      ascii ''added_date'' \<mapsto> VStr (now_iso e i)]
     ++ (case meta of None \<Rightarrow> Map.empty | Some m \<Rightarrow> m)"

definition add_document ::
  "env \<Rightarrow> rag \<Rightarrow> pystr \<Rightarrow> metadata option \<Rightarrow> rag \<times> (error + add_result)" where
  "add_document e st path meta =
     (case extract_text_from_file e path of
        Inl err \<Rightarrow> (st, Inl err)
      | Inr text \<Rightarrow>
     (case split_text e text 500 of
        Inl err \<Rightarrow> (st, Inl err)
      | Inr chunks \<Rightarrow>
     (case get_embeddings e chunks of
        Inl err \<Rightarrow> (st, Inl err)
      | Inr embeddings \<Rightarrow>
     (case (case index st of
              None \<Rightarrow> (case shape1 embeddings of
                          Inl err \<Rightarrow> Inl err
                        | Inr dimension \<Rightarrow> Inr (IndexFlatL2 dimension))
            | Some ix \<Rightarrow> Inr ix) of
        Inl err \<Rightarrow> (st, Inl err)
      | Inr ix \<Rightarrow>
          let st1 = st\<lparr>index := Some ix\<rparr>
          in (case faiss_add ix embeddings of
                Inl err \<Rightarrow> (st1, Inl err)
              | Inr ix' \<Rightarrow>
                  let st2 = st1\<lparr>index := Some ix',
                                documents := documents st1 @ chunks,
                                document_metadata :=
                                  document_metadata st1
                                  @ map (chunk_metadata e path meta) [0..<length chunks]\<rparr>
                  in (st2, Inr \<lparr>file_path = path,
                                chunk_count = length chunks,
                                total_chunks = length (documents st2)\<rparr>))))))"

subsection \<open>\<open>add_documents_from_folder\<close>\<close>

text \<open>
  A directory holds file names and named subdirectories. \<open>os.walk\<close> yields, top-down,
  one triple \<open>(root, dirs, files)\<close> per directory; a folder that cannot be listed yields
  nothing. The tree found at \<open>folder_path\<close> is an argument of the operation (\<open>None\<close>
  when the path is no directory). File names hold no slash, so \<open>os.path.join\<close> puts one
  slash between a directory path and a name unless the path ends with one.
\<close>

datatype dirtree = Dir "pystr list" "(pystr \<times> dirtree) list"

definition os_path_join :: "pystr \<Rightarrow> pystr \<Rightarrow> pystr" where
  "os_path_join dirpath name =
     (if dirpath = [] \<or> last dirpath = 47 then dirpath @ name else dirpath @ [47] @ name)"

fun os_walk :: "pystr \<Rightarrow> dirtree \<Rightarrow> (pystr \<times> pystr list \<times> pystr list) list" where
  "os_walk dirpath (Dir files subs) =
     (dirpath, map fst subs, files)
     # concat (map (\<lambda>(name, t). os_walk (os_path_join dirpath name) t) subs)"

text \<open>
  One record of the report: the dict of \<open>add_document\<close> with \<open>"status": "success"\<close>
  added, or the dict with \<open>"status": "error"\<close> and the exception.
\<close>

datatype folder_record = Success add_result | Failure pystr error

fun record_path :: "folder_record \<Rightarrow> pystr" where
  "record_path (Success r) = file_path r"
| "record_path (Failure p _) = p"

fun record_status :: "folder_record \<Rightarrow> pystr" where
  "record_status (Success _) = ascii ''success''"
| "record_status (Failure _ _) = ascii ''error''"

definition default_extensions :: "pystr list" where
  "default_extensions = [ascii ''.pdf'', ascii ''.docx'', ascii ''.txt'']"

definition matches :: "pystr list \<Rightarrow> pystr \<Rightarrow> bool" where
  "matches file_extensions file = list_ex (\<lambda>ext. endswith (py_lower file) ext) file_extensions"

text \<open>
  The body of the inner loop, for one file name of one directory. The accumulator is the
  engine with the report so far, or with the exception that ended the walk. Both
  \<open>print\<close> calls are part of it: the first stands inside the \<open>try\<close>, after the success
  record was appended, so when it raises the handler appends an error record for the
  same file; the second stands in the handler, so when it raises the exception leaves
  \<open>add_documents_from_folder\<close>.
\<close>

definition folder_file ::
  "env \<Rightarrow> pystr list \<Rightarrow> pystr \<Rightarrow> rag \<times> (error + folder_record list) \<Rightarrow> pystr
   \<Rightarrow> rag \<times> (error + folder_record list)" where
  "folder_file e file_extensions dirpath acc file =
     (case acc of
        (st, Inl raised) \<Rightarrow> (st, Inl raised)
      | (st, Inr results) \<Rightarrow>
          if matches file_extensions file
          then (case add_document e st (os_path_join dirpath file) None of
                  (st', Inr result) \<Rightarrow>
                    if print_ok e file None
                    then (st', Inr (results @ [Success result]))
                    else if print_ok e file (Some PrintFailed)
                    then (st', Inr (results @ [Success result,
                                               Failure (os_path_join dirpath file) PrintFailed]))
                    else (st', Inl PrintFailed)
                | (st', Inl err) \<Rightarrow>
                    if print_ok e file (Some err)
                    then (st', Inr (results @ [Failure (os_path_join dirpath file) err]))
                    else (st', Inl PrintFailed))
          else (st, Inr results))"

definition folder_dir ::
  "env \<Rightarrow> pystr list \<Rightarrow> rag \<times> (error + folder_record list)
   \<Rightarrow> pystr \<times> pystr list \<times> pystr list \<Rightarrow> rag \<times> (error + folder_record list)" where
  "folder_dir e file_extensions acc entry =
     (case entry of (dirpath, _, files) \<Rightarrow> foldl (folder_file e file_extensions dirpath) acc files)"

definition add_documents_from_folder ::
  "env \<Rightarrow> rag \<Rightarrow> pystr \<Rightarrow> dirtree option \<Rightarrow> pystr list option
   \<Rightarrow> rag \<times> (error + folder_record list)" where
  "add_documents_from_folder e st folder_path tree file_extensions =
     (let exts = (case file_extensions of None \<Rightarrow> default_extensions | Some xs \<Rightarrow> xs)
      in foldl (folder_dir e exts) (st, Inr [])
           (case tree of None \<Rightarrow> [] | Some t \<Rightarrow> os_walk folder_path t))"

subsection \<open>\<open>search\<close>\<close>

record search_result =
  document :: pystr
  metadata :: metadata
  score :: real

text \<open>The loop over \<open>enumerate(indices[0])\<close>, with \<open>distances[0]\<close> alongside.\<close>

fun build_results ::
  "pystr list \<Rightarrow> metadata list \<Rightarrow> search_result list \<Rightarrow> (real \<times> int) list
   \<Rightarrow> error + search_result list" where
  "build_results docs metas results [] = Inr results"
| "build_results docs metas results ((distance, idx) # rest) =
     (if idx < int (length docs)
      then (case py_getitem docs idx of
              Inl err \<Rightarrow> Inl err
            | Inr doc \<Rightarrow>
                (case py_getitem metas idx of
                   Inl err \<Rightarrow> Inl err
                 | Inr m \<Rightarrow>
                     build_results docs metas
                       (results @ [\<lparr>document = doc, metadata = m, score = distance\<rparr>]) rest))
      else build_results docs metas results rest)"

definition search :: "env \<Rightarrow> rag \<Rightarrow> pystr \<Rightarrow> int \<Rightarrow> error + search_result list" where
  "search e st query k =
     (case index st of
        None \<Rightarrow> Inr []
      | Some ix \<Rightarrow>
          if length (documents st) = 0 then Inr []
          else (case get_embeddings e [query] of
                  Inl err \<Rightarrow> Inl err
                | Inr query_embedding \<Rightarrow>
                    (case faiss_search ix query_embedding k of
                       Inl err \<Rightarrow> Inl err
                     | Inr (distances, indices) \<Rightarrow>
                         build_results (documents st) (document_metadata st) []
                           (zip (hd distances) (hd indices)))))"

subsection \<open>\<open>save_index\<close> and \<open>load_index\<close>\<close>

text \<open>
  The two artifacts on disk. The sidecar is the JSON object \<open>json.load\<close> returns; a key
  that is absent is \<open>None\<close> (reading it raises \<open>KeyError\<close>). A file that is neither a
  vector index nor JSON is \<open>Unparsable\<close>. \<open>makedirs_ok\<close> and \<open>write_ok\<close> say whether
  creating the directory of a path and opening a path for writing go through.
\<close>

record sidecar =
  sc_documents :: "pystr list option"
  sc_metadata :: "metadata list option"
  sc_saved_date :: pystr
  sc_embedding_model :: pystr

datatype file_content = IndexBlob faiss_index | JsonFile sidecar | Unparsable

record filesys =
  contents :: "pystr \<rightharpoonup> file_content"
  makedirs_ok :: "pystr \<Rightarrow> bool"
  write_ok :: "pystr \<Rightarrow> bool"

definition write_file :: "filesys \<Rightarrow> pystr \<Rightarrow> file_content \<Rightarrow> filesys" where
  "write_file fs p c = fs\<lparr>contents := (contents fs)(p \<mapsto> c)\<rparr>"

definition read_index :: "filesys \<Rightarrow> pystr \<Rightarrow> faiss_index option" where
  "read_index fs p = (case contents fs p of Some (IndexBlob ix) \<Rightarrow> Some ix | _ \<Rightarrow> None)"

definition json_load :: "filesys \<Rightarrow> pystr \<Rightarrow> sidecar option" where
  "json_load fs p = (case contents fs p of Some (JsonFile data) \<Rightarrow> Some data | _ \<Rightarrow> None)"

definition save_index :: "env \<Rightarrow> filesys \<Rightarrow> rag \<Rightarrow> pystr \<Rightarrow> filesys \<times> rag \<times> bool" where
  "save_index e fs st path =
     (case index st of
        None \<Rightarrow> (fs, st, False)
      | Some ix \<Rightarrow>
          if \<not> makedirs_ok fs path then (fs, st, False)
          else if \<not> write_ok fs (path @ ascii ''.index'') then (fs, st, False)
          else let fs1 = write_file fs (path @ ascii ''.index'') (IndexBlob ix);
                   data = \<lparr>sc_documents = Some (documents st),
                           sc_metadata = Some (document_metadata st),
                           sc_saved_date = now_iso e 0,
                           sc_embedding_model = embedding_model st\<rparr>
               in if \<not> write_ok fs (path @ ascii ''.json'') then (fs1, st, False)
                  else (write_file fs1 (path @ ascii ''.json'') (JsonFile data), st, True))"

definition load_index :: "filesys \<Rightarrow> rag \<Rightarrow> pystr \<Rightarrow> rag \<times> bool" where
  "load_index fs st path =
     (case read_index fs (path @ ascii ''.index'') of
        None \<Rightarrow> (st, False)
      | Some ix \<Rightarrow>
          let st1 = st\<lparr>index := Some ix\<rparr>
          in (case json_load fs (path @ ascii ''.json'') of
                None \<Rightarrow> (st1, False)
              | Some data \<Rightarrow>
                  (case sc_documents data of
                     None \<Rightarrow> (st1, False)
                   | Some docs \<Rightarrow>
                       let st2 = st1\<lparr>documents := docs\<rparr>
                       in (case sc_metadata data of
                             None \<Rightarrow> (st2, False)
                           | Some metas \<Rightarrow> (st2\<lparr>document_metadata := metas\<rparr>, True)))))"

subsection \<open>\<open>get_index_status\<close>, \<open>clear_index\<close>, \<open>is_index_loaded\<close>\<close>

text \<open>
  \<open>file_stats\<close> is a dict in insertion order, keyed by the value found under
  \<open>"file_path"\<close> (the two-character default when a chunk has none). The status of an
  engine without index has no \<open>file_stats\<close> entry.
\<close>

definition status_uninitialized :: pystr where
  "status_uninitialized = [26410, 21021, 22987, 21270]"

definition status_initialized :: pystr where
  "status_initialized = [24050, 21021, 22987, 21270]"

definition unknown_file :: pystr where
  "unknown_file = [26410, 30693]"

record index_status =
  status :: pystr
  document_count :: nat
  file_count :: nat
  dimension :: nat
  file_stats :: "(pyval \<times> nat) list option"

fun bump :: "(pyval \<times> nat) list \<Rightarrow> pyval \<Rightarrow> (pyval \<times> nat) list" where
  "bump [] key = [(key, 0 + 1)]"
| "bump ((k, n) # rest) key = (if k = key then (k, n + 1) # rest else (k, n) # bump rest key)"

definition count_files :: "metadata list \<Rightarrow> (pyval \<times> nat) list" where
  "count_files metas =
     foldl (\<lambda>stats meta.
              bump stats (case meta (ascii ''file_path'') of
                            None \<Rightarrow> VStr unknown_file
                          | Some v \<Rightarrow> v))
       [] metas"

definition get_index_status :: "rag \<Rightarrow> index_status" where
  "get_index_status st =
     (case index st of
        None \<Rightarrow> \<lparr>status = status_uninitialized, document_count = 0, file_count = 0,
                  dimension = 0, file_stats = None\<rparr>
      | Some ix \<Rightarrow>
          let stats = count_files (document_metadata st)
          in \<lparr>status = status_initialized,
              document_count = length (documents st),
              file_count = length stats,
              dimension = d ix,
              file_stats = Some stats\<rparr>)"

definition clear_index :: "rag \<Rightarrow> rag \<times> bool" where
  "clear_index st = (st\<lparr>index := None, documents := [], document_metadata := []\<rparr>, True)"

definition is_index_loaded :: "rag \<Rightarrow> bool" where
  "is_index_loaded st \<longleftrightarrow> index st \<noteq> None \<and> length (documents st) > 0"

section \<open>Notions the properties are stated with\<close>

text \<open>The vectors the engine holds: none while \<open>self.index\<close> is \<open>None\<close>.\<close>

definition index_vecs :: "rag \<Rightarrow> real list list" where
  "index_vecs st = (case index st of None \<Rightarrow> [] | Some ix \<Rightarrow> vecs ix)"

text \<open>
  A string is trimmed when \<open>strip\<close> has nothing to remove from it and something is left.
\<close>

definition trimmed :: "pystr \<Rightarrow> bool" where
  "trimmed s \<longleftrightarrow> s \<noteq> [] \<and> \<not> py_isspace (hd s) \<and> \<not> py_isspace (last s)"

text \<open>
  The sentences \<open>split_text\<close> packs: those of the segmenter, or those of the
  punctuation split when the segmenter yields none.
\<close>

definition packed_sentences :: "env \<Rightarrow> pystr \<Rightarrow> pystr list" where
  "packed_sentences e text =
     (case nlp_sents e text of
        None \<Rightarrow> []
      | Some sents \<Rightarrow>
          if stripped_nonempty sents \<noteq> [] then stripped_nonempty sents
          else stripped_nonempty (re_split_sentences text))"

text \<open>
  Invariants of the packing loop. A finished chunk is trimmed and either within the size
  bound or one whole sentence; the accumulator is empty or such a chunk followed by one
  space; a sentence longer than the bound is a chunk already or is alone in the
  accumulator.
\<close>

definition good :: "int \<Rightarrow> pystr set \<Rightarrow> pystr \<Rightarrow> bool" where
  "good cs S c \<longleftrightarrow> trimmed c \<and> (int (length c) \<le> cs \<or> c \<in> S)"

definition pack_inv :: "int \<Rightarrow> pystr set \<Rightarrow> pystr list \<times> pystr \<Rightarrow> bool" where
  "pack_inv cs S acc \<longleftrightarrow>
     (\<forall>c\<in>set (fst acc). good cs S c) \<and>
     (snd acc = [] \<or> (\<exists>body. snd acc = body @ [32] \<and> good cs S body))"

definition over_inv :: "int \<Rightarrow> pystr set \<Rightarrow> pystr list \<times> pystr \<Rightarrow> bool" where
  "over_inv cs P acc \<longleftrightarrow>
     (\<forall>s\<in>P. cs < int (length s) \<longrightarrow> s \<in> set (fst acc) \<or> snd acc = s @ [32])"

text \<open>
  Positional alignment of the three sequences, the service contract it relies on (one
  vector per input text), an artifact pair that is itself aligned, and the states the
  public operations reach when every restore reads such a pair.
\<close>

definition aligned :: "rag \<Rightarrow> bool" where
  "aligned st \<longleftrightarrow>
     length (documents st) = length (document_metadata st) \<and>
     length (index_vecs st) = length (documents st)"

definition one_vector_per_text :: "env \<Rightarrow> bool" where
  "one_vector_per_text e \<longleftrightarrow>
     (\<forall>texts rows. embed_api e texts = Some rows \<longrightarrow> length rows = length texts)"

definition pair_aligned :: "filesys \<Rightarrow> pystr \<Rightarrow> bool" where
  "pair_aligned fs path =
     (case read_index fs (path @ ascii ''.index'') of
        None \<Rightarrow> True
      | Some ix \<Rightarrow>
          (case json_load fs (path @ ascii ''.json'') of
             None \<Rightarrow> False
           | Some data \<Rightarrow>
               (case (sc_documents data, sc_metadata data) of
                  (Some docs, Some metas) \<Rightarrow>
                     ntotal ix = length docs \<and> length docs = length metas
                | _ \<Rightarrow> False)))"

inductive reachable :: "env \<Rightarrow> rag \<Rightarrow> bool" for e :: env where
  r_init: "reachable e (init model)"
| r_add_document: "reachable e st \<Longrightarrow> reachable e (fst (add_document e st path meta))"
| r_add_folder:
    "reachable e st \<Longrightarrow> reachable e (fst (add_documents_from_folder e st folder tree exts))"
| r_clear: "reachable e st \<Longrightarrow> reachable e (fst (clear_index st))"
| r_save: "reachable e st \<Longrightarrow> reachable e (fst (snd (save_index e fs st path)))"
| r_load:
    "reachable e st \<Longrightarrow> pair_aligned fs path \<Longrightarrow> reachable e (fst (load_index fs st path))"

section \<open>Concrete inputs\<close>

text \<open>
  A small world to run the operations in: every text file reads as \<open>Hi! Yo?\<close>, every
  PDF and Word file is corrupt, the segmenter cuts after sentence-final marks, the
  embedding of a text is the one-component vector of the sum of its code points, and
  every line can be printed. The second environment differs only in that the embedding
  service is unreachable.
\<close>

definition env_demo :: env where
  "env_demo =
     \<lparr>pdf_pages = (\<lambda>_. None),
      docx_paragraphs = (\<lambda>_. None),
      txt_content = (\<lambda>_. Some (ascii ''Hi! Yo?'')),
      nlp_sents = (\<lambda>t. Some (re_split_sentences t)),
      embed_api = (\<lambda>texts. Some (map (\<lambda>t. Arr [Num (real (sum_list t))]) texts)),
      now_iso = (\<lambda>_. ascii ''2024-01-01T00:00:00''),
      print_ok = (\<lambda>_ _. True)\<rparr>"

definition env_offline :: env where
  "env_offline = env_demo\<lparr>embed_api := (\<lambda>_. None)\<rparr>"

text \<open>
  A service that answers every text with a list of lists, so that the array has three
  dimensions, and a console that accepts no line.
\<close>

definition env_nested :: env where
  "env_nested = env_demo\<lparr>embed_api := (\<lambda>texts. Some (map (\<lambda>_. Arr [Arr [Num 1]]) texts))\<rparr>"

definition env_mute :: env where
  "env_mute = env_demo\<lparr>print_ok := (\<lambda>_ _. False)\<rparr>"

text \<open>An engine holding two chunks of two files, with their vectors.\<close>

definition two_chunks :: rag where
  "two_chunks =
     \<lparr>embedding_model = ascii ''model'',
      index = Some \<lparr>d = 1, vecs = [[210], [263]]\<rparr>,
      documents = [ascii ''Hi!'', ascii ''Yo?''],
      document_metadata = [[ascii ''file_path'' \<mapsto> VStr (ascii ''a.txt'')],
                           [ascii ''file_path'' \<mapsto> VStr (ascii ''b.txt'')]]\<rparr>"

text \<open>
  Three disks: an empty one on which every write goes through, one whose artifact pair
  holds two vectors but one document, and one that holds the vector blob alone.
\<close>

definition fs_empty :: filesys where
  "fs_empty = \<lparr>contents = Map.empty, makedirs_ok = (\<lambda>_. True), write_ok = (\<lambda>_. True)\<rparr>"

definition fs_mismatch :: filesys where
  "fs_mismatch =
     fs_empty\<lparr>contents :=
       [ascii ''idx/main.index'' \<mapsto> IndexBlob \<lparr>d = 1, vecs = [[210], [263]]\<rparr>,
        ascii ''idx/main.json'' \<mapsto>
          JsonFile \<lparr>sc_documents = Some [ascii ''Hi!''],
                    sc_metadata = Some [Map.empty],
                    sc_saved_date = ascii ''2024-01-01T00:00:00'',
                    sc_embedding_model = ascii ''model''\<rparr>]\<rparr>"

definition fs_blob_only :: filesys where
  "fs_blob_only =
     fs_empty\<lparr>contents :=
       [ascii ''idx/main.index'' \<mapsto> IndexBlob \<lparr>d = 1, vecs = [[210], [263]]\<rparr>]\<rparr>"

text \<open>A folder with a text file, a Markdown file, a PDF and a subfolder.\<close>

definition tree_demo :: dirtree where
  "tree_demo =
     Dir [ascii ''a.txt'', ascii ''b.md'', ascii ''c.pdf'']
         [(ascii ''sub'', Dir [ascii ''D.TXT''] [])]"

definition long_text :: pystr where
  "long_text = ascii '' Hi! Yo?  What a long one! ''"

section \<open>Auxiliary facts\<close>

subsection \<open>Vector index and ingestion\<close>

lemma faiss_add_fresh:
  "length (fst x) = 2 \<Longrightarrow> shape1 x = Inr n
   \<Longrightarrow> faiss_add (IndexFlatL2 n) x = Inr \<lparr>d = n, vecs = rows_of x\<rparr>"
  by (auto simp: shape1_def faiss_add_def IndexFlatL2_def split: if_splits)

lemma faiss_add_fresh_error:
  "faiss_add (IndexFlatL2 n) x = Inl err \<Longrightarrow> shape1 x = Inr n \<Longrightarrow> err = ShapeError"
  by (auto simp: shape1_def faiss_add_def IndexFlatL2_def split: if_splits)

lemma faiss_add_vecs:
  "faiss_add ix x = Inr ix' \<Longrightarrow> vecs ix' = vecs ix @ rows_of x \<and> d ix' = d ix"
  by (auto simp: faiss_add_def split: if_splits)

lemma add_document_failure:
  assumes "add_document e st path meta = (st', Inl err)"
  shows "st' = st \<or>
         (index st = None \<and> err = ShapeError \<and>
          (\<exists>dimension. st' = st\<lparr>index := Some (IndexFlatL2 dimension)\<rparr>))"
proof (cases "index st")
  case None
  with assms show ?thesis
    by (auto simp: add_document_def Let_def split: sum.splits dest: faiss_add_fresh_error)
next
  case (Some ix)
  with assms show ?thesis
    by (auto simp: add_document_def Let_def split: sum.splits)
qed

lemma add_document_success:
  assumes "add_document e st path meta = (st', Inr r)"
  shows "\<exists>text chunks x.
           extract_text_from_file e path = Inr text \<and>
           split_text e text 500 = Inr chunks \<and>
           get_embeddings e chunks = Inr x \<and>
           index st' \<noteq> None \<and>
           index_vecs st' = index_vecs st @ rows_of x \<and>
           documents st' = documents st @ chunks \<and>
           document_metadata st' =
             document_metadata st @ map (chunk_metadata e path meta) [0..<length chunks] \<and>
           embedding_model st' = embedding_model st \<and>
           r = \<lparr>file_path = path, chunk_count = length chunks,
                total_chunks = length (documents st) + length chunks\<rparr>"
proof (cases "index st")
  case None
  with assms show ?thesis
    by (auto simp: add_document_def Let_def index_vecs_def IndexFlatL2_def
             dest!: faiss_add_vecs split: sum.splits)
next
  case (Some ix)
  with assms show ?thesis
    by (auto simp: add_document_def Let_def index_vecs_def dest: faiss_add_vecs split: sum.splits)
qed

lemma extract_not_shape: "extract_text_from_file e path = Inl err \<Longrightarrow> err \<noteq> ShapeError"
  by (auto simp: extract_text_from_file_def extract_text_from_pdf_def extract_text_from_docx_def
        extract_text_from_txt_def split: if_splits option.splits)

lemma split_not_shape: "split_text e body n = Inl err \<Longrightarrow> err \<noteq> ShapeError"
  by (auto simp: split_text_def Let_def split: if_splits option.splits)

lemma embed_not_shape: "get_embeddings e texts = Inl err \<Longrightarrow> err \<noteq> ShapeError"
  by (auto simp: get_embeddings_def split: option.splits)

lemma shape1_not_shape: "shape1 x = Inl err \<Longrightarrow> err \<noteq> ShapeError"
  by (auto simp: shape1_def split: if_splits)

lemma add_document_failure_exact:
  assumes "add_document e st path meta = (st', Inl err)"
  shows "if index st = None \<and> err = ShapeError
         then (\<exists>dimension. st' = st\<lparr>index := Some (IndexFlatL2 dimension)\<rparr>)
         else st' = st"
proof (cases "index st")
  case None
  with assms show ?thesis
    by (auto simp: add_document_def Let_def split: sum.splits
             dest: faiss_add_fresh_error extract_not_shape split_not_shape embed_not_shape
                   shape1_not_shape)
next
  case (Some ix)
  with assms show ?thesis
    by (auto simp: add_document_def Let_def split: sum.splits)
qed


subsection \<open>Trimming\<close>

lemma space_isspace: "py_isspace 32"
  by (simp add: py_isspace_def)

lemma rstrip_prefix: "\<exists>ws. t = rstrip t @ ws"
proof -
  have "t = rev (dropWhile py_isspace (rev t)) @ rev (takeWhile py_isspace (rev t))"
    by (metis rev_append rev_rev_ident takeWhile_dropWhile_id)
  then show ?thesis unfolding rstrip_def by blast
qed

lemma trimmed_strip:
  assumes "strip s \<noteq> []"
  shows "trimmed (strip s)"
proof -
  let ?t = "lstrip s"
  from assms have t_ne: "?t \<noteq> []" by (auto simp: strip_def rstrip_def)
  then have hd_t: "\<not> py_isspace (hd ?t)"
    unfolding lstrip_def by (rule hd_dropWhile)
  obtain ws where ws: "?t = rstrip ?t @ ws" using rstrip_prefix by blast
  from assms have u_ne: "rstrip ?t \<noteq> []" by (simp add: strip_def)
  have "hd ?t = hd (rstrip ?t)" using ws u_ne by (metis hd_append2)
  with hd_t have h: "\<not> py_isspace (hd (strip s))" by (simp add: strip_def)
  from u_ne have d_ne: "dropWhile py_isspace (rev ?t) \<noteq> []" by (simp add: rstrip_def)
  then have "\<not> py_isspace (hd (dropWhile py_isspace (rev ?t)))" by (rule hd_dropWhile)
  moreover have "last (rstrip ?t) = hd (dropWhile py_isspace (rev ?t))"
    using d_ne by (simp add: rstrip_def last_rev)
  ultimately have l: "\<not> py_isspace (last (strip s))" by (simp add: strip_def)
  from assms h l show ?thesis by (simp add: trimmed_def)
qed

lemma strip_trimmed_space:
  assumes "trimmed s"
  shows "strip (s @ [32]) = s"
proof -
  from assms obtain c cs where s: "s = c # cs" and c: "\<not> py_isspace c"
    by (cases s) (auto simp: trimmed_def)
  then have l: "lstrip (s @ [32]) = s @ [32]" by (simp add: lstrip_def)
  from assms have "rev s \<noteq> []" "\<not> py_isspace (hd (rev s))"
    by (auto simp: trimmed_def hd_rev)
  then have "dropWhile py_isspace (rev s) = rev s" by (cases "rev s") auto
  then show ?thesis by (simp add: strip_def l rstrip_def space_isspace)
qed

lemma trimmed_append:
  assumes "trimmed a" "trimmed b"
  shows "trimmed (a @ [32] @ b)"
  using assms by (auto simp: trimmed_def)

lemma stripped_nonempty_trimmed: "s \<in> set (stripped_nonempty xs) \<Longrightarrow> trimmed s"
  by (auto simp: stripped_nonempty_def intro: trimmed_strip)

lemma strip_trimmed: "trimmed s \<Longrightarrow> strip s = s"
proof -
  assume a: "trimmed s"
  then obtain c cs where s: "s = c # cs" and c: "\<not> py_isspace c"
    by (cases s) (auto simp: trimmed_def)
  then have l: "lstrip s = s" by (simp add: lstrip_def)
  from a have "rev s \<noteq> []" "\<not> py_isspace (hd (rev s))"
    by (auto simp: trimmed_def hd_rev)
  then have "dropWhile py_isspace (rev s) = rev s" by (cases "rev s") auto
  then show ?thesis by (simp add: strip_def l rstrip_def)
qed

subsection \<open>The packing loop\<close>

lemma pack_step_inv:
  assumes inv: "pack_inv cs S acc" and s: "trimmed s" "s \<in> S"
  shows "pack_inv cs S (pack_step cs acc s)"
proof (cases acc)
  case (Pair chunks cur)
  from inv Pair have ch: "\<forall>c\<in>set chunks. good cs S c" by (simp add: pack_inv_def)
  from s have gs: "cur = [] \<Longrightarrow> good cs S s" by (simp add: good_def)
  show ?thesis
  proof (cases "int (length cur) + int (length s) \<le> cs")
    case fits: True
    show ?thesis
    proof (cases "cur = []")
      case True
      with fits Pair ch s show ?thesis
        by (auto simp: pack_inv_def pack_step_def good_def)
    next
      case False
      with inv Pair obtain body where b: "cur = body @ [32]" "good cs S body"
        by (auto simp: pack_inv_def)
      have "trimmed body" using b by (simp add: good_def)
      then have "trimmed (body @ [32] @ s)" using s(1) by (rule trimmed_append)
      moreover have "int (length (body @ [32] @ s)) \<le> cs" using fits b by simp
      ultimately have g: "good cs S (body @ [32] @ s)" by (simp add: good_def)
      have "pack_step cs acc s = (chunks, (body @ [32] @ s) @ [32])"
        using fits Pair b by (simp add: pack_step_def)
      then have "fst (pack_step cs acc s) = chunks"
        and "\<exists>nb. snd (pack_step cs acc s) = nb @ [32] \<and> good cs S nb"
        using g by (simp, metis snd_conv)
      with ch show ?thesis unfolding pack_inv_def by simp
    qed
  next
    case nofit: False
    have new: "good cs S s" using s by (simp add: good_def)
    show ?thesis
    proof (cases "cur = []")
      case True
      with nofit Pair ch new show ?thesis
        by (auto simp: pack_inv_def pack_step_def)
    next
      case False
      with inv Pair obtain body where b: "cur = body @ [32]" "good cs S body"
        by (auto simp: pack_inv_def)
      then have "strip cur = body" by (simp add: good_def strip_trimmed_space)
      with nofit Pair ch new False b show ?thesis
        by (auto simp: pack_inv_def pack_step_def)
    qed
  qed
qed

lemma pack_inv_foldl:
  "pack_inv cs S acc \<Longrightarrow> (\<forall>s\<in>set xs. trimmed s \<and> s \<in> S) \<Longrightarrow> pack_inv cs S (pack cs acc xs)"
proof (induction xs arbitrary: acc)
  case Nil
  then show ?case by (simp add: pack_def)
next
  case (Cons x xs)
  then have "pack_inv cs S (pack_step cs acc x)" by (simp add: pack_step_inv)
  with Cons have "pack_inv cs S (pack cs (pack_step cs acc x) xs)" by simp
  then show ?case by (simp add: pack_def)
qed

lemma flush_good:
  assumes "pack_inv cs S acc" "c \<in> set (flush acc)"
  shows "good cs S c"
proof (cases acc)
  case (Pair chunks cur)
  show ?thesis
  proof (cases "cur = []")
    case True
    with assms Pair show ?thesis by (auto simp: pack_inv_def flush_def)
  next
    case False
    with assms(1) Pair obtain body where b: "cur = body @ [32]" "good cs S body"
      by (auto simp: pack_inv_def)
    then have "strip cur = body" by (simp add: good_def strip_trimmed_space)
    with assms Pair False b show ?thesis by (auto simp: pack_inv_def flush_def)
  qed
qed

lemma pack_step_over:
  assumes inv: "over_inv cs P acc" and tr: "\<forall>p\<in>P. trimmed p" and s: "trimmed s"
  shows "over_inv cs (insert s P) (pack_step cs acc s)"
proof (cases acc)
  case (Pair chunks cur)
  show ?thesis
  proof (cases "int (length cur) + int (length s) \<le> cs")
    case True
    have "p \<in> set chunks" if "p \<in> P" "cs < int (length p)" for p
    proof -
      from inv Pair that have "p \<in> set chunks \<or> cur = p @ [32]" by (auto simp: over_inv_def)
      moreover have "cur \<noteq> p @ [32]" using True that by auto
      ultimately show ?thesis by simp
    qed
    with True Pair show ?thesis by (auto simp: over_inv_def pack_step_def)
  next
    case False
    have "p \<in> set (if cur \<noteq> [] then chunks @ [strip cur] else chunks)"
      if "p \<in> P" "cs < int (length p)" for p
    proof -
      from inv Pair that have "p \<in> set chunks \<or> cur = p @ [32]" by (auto simp: over_inv_def)
      then show ?thesis
      proof
        assume "p \<in> set chunks" then show ?thesis by simp
      next
        assume c: "cur = p @ [32]"
        with tr that have "strip cur = p" by (simp add: strip_trimmed_space)
        with c show ?thesis by simp
      qed
    qed
    with False Pair show ?thesis by (auto simp: over_inv_def pack_step_def)
  qed
qed

lemma over_inv_foldl:
  "over_inv cs P acc \<Longrightarrow> (\<forall>p\<in>P \<union> set xs. trimmed p)
   \<Longrightarrow> over_inv cs (P \<union> set xs) (pack cs acc xs)"
proof (induction xs arbitrary: acc P)
  case Nil
  then show ?case by (simp add: pack_def)
next
  case (Cons x xs)
  then have "over_inv cs (insert x P) (pack_step cs acc x)" by (simp add: pack_step_over)
  moreover have "\<forall>p\<in>insert x P \<union> set xs. trimmed p" using Cons.prems by auto
  ultimately have "over_inv cs (insert x P \<union> set xs) (pack cs (pack_step cs acc x) xs)"
    by (rule Cons.IH)
  then show ?case by (simp add: pack_def)
qed

lemma flush_over:
  assumes "over_inv cs P acc" "\<forall>p\<in>P. trimmed p" "s \<in> P" "cs < int (length s)"
  shows "s \<in> set (flush acc)"
proof (cases acc)
  case (Pair chunks cur)
  from assms Pair have "s \<in> set chunks \<or> cur = s @ [32]" by (auto simp: over_inv_def)
  then show ?thesis
  proof
    assume "s \<in> set chunks" with Pair show ?thesis by (simp add: flush_def)
  next
    assume c: "cur = s @ [32]"
    with assms have "strip cur = s" by (simp add: strip_trimmed_space)
    with c Pair show ?thesis by (simp add: flush_def)
  qed
qed

lemma pack_current_nonempty: "xs \<noteq> [] \<Longrightarrow> snd (pack cs acc xs) \<noteq> []"
proof (induction xs arbitrary: acc rule: rev_induct)
  case Nil
  then show ?case by simp
next
  case (snoc x xs)
  show ?case by (cases "pack cs acc xs") (simp add: pack_def pack_step_def)
qed

lemma flush_empty_iff: "flush (pack cs ([], []) xs) = [] \<longleftrightarrow> xs = []"
proof
  assume a: "flush (pack cs ([], []) xs) = []"
  show "xs = []"
  proof (rule ccontr)
    assume "xs \<noteq> []"
    then have "snd (pack cs ([], []) xs) \<noteq> []" by (rule pack_current_nonempty)
    with a show False by (cases "pack cs ([], []) xs") (simp add: flush_def)
  qed
next
  assume "xs = []"
  then show "flush (pack cs ([], []) xs) = []" by (simp add: pack_def flush_def)
qed

lemma split_text_packed:
  assumes "split_text e text cs = Inr chunks"
  shows "chunks = flush (pack cs ([], []) (packed_sentences e text))"
proof (cases "nlp_sents e text")
  case None
  with assms show ?thesis by (simp add: split_text_def)
next
  case (Some sents)
  show ?thesis
  proof (cases "stripped_nonempty sents = []")
    case True
    with Some assms show ?thesis
      by (simp add: split_text_def packed_sentences_def Let_def pack_def flush_def)
  next
    case False
    then have "flush (pack cs ([], []) (stripped_nonempty sents)) \<noteq> []"
      by (simp add: flush_empty_iff)
    with Some assms False show ?thesis
      by (simp add: split_text_def packed_sentences_def Let_def)
  qed
qed

subsection \<open>Alignment\<close>

lemma get_embeddings_length:
  "one_vector_per_text e \<Longrightarrow> get_embeddings e texts = Inr x
   \<Longrightarrow> length (rows_of x) = length texts"
  by (auto simp: one_vector_per_text_def get_embeddings_def rows_of_def
           split: option.splits)

lemma add_document_aligned:
  assumes "one_vector_per_text e" "aligned st"
  shows "aligned (fst (add_document e st path meta))"
proof (cases "add_document e st path meta")
  case (Pair st' out)
  show ?thesis
  proof (cases out)
    case (Inl err)
    with Pair have "st' = st \<or> (index st = None \<and>
        (\<exists>dimension. st' = st\<lparr>index := Some (IndexFlatL2 dimension)\<rparr>))"
      by (auto dest: add_document_failure)
    then have "aligned st'"
      using assms(2) by (auto simp: aligned_def index_vecs_def IndexFlatL2_def)
    with Pair show ?thesis by simp
  next
    case (Inr r)
    with Pair obtain chunks x where
      "get_embeddings e chunks = Inr x"
      "index_vecs st' = index_vecs st @ rows_of x"
      "documents st' = documents st @ chunks"
      "document_metadata st' =
         document_metadata st @ map (chunk_metadata e path meta) [0..<length chunks]"
      using add_document_success[of e st path meta st' r] by blast
    moreover from this assms have "length (rows_of x) = length chunks"
      by (auto dest: get_embeddings_length)
    ultimately show ?thesis using assms(2) Pair by (simp add: aligned_def)
  qed
qed

lemma folder_file_aligned:
  assumes "one_vector_per_text e" "aligned (fst acc)"
  shows "aligned (fst (folder_file e exts dirpath acc file))"
proof (cases acc)
  case (Pair st out)
  show ?thesis
  proof (cases out)
    case (Inl raised)
    with Pair assms show ?thesis by (simp add: folder_file_def)
  next
    case (Inr results)
    from assms Pair have a: "aligned (fst (add_document e st (os_path_join dirpath file) None))"
      by (simp add: add_document_aligned)
    from assms Pair have b: "aligned st" by simp
    show ?thesis using Pair Inr a b
      by (cases "add_document e st (os_path_join dirpath file) None")
         (auto simp: folder_file_def split: sum.splits)
  qed
qed

lemma folder_files_aligned:
  "one_vector_per_text e \<Longrightarrow> aligned (fst acc)
   \<Longrightarrow> aligned (fst (foldl (folder_file e exts dirpath) acc names))"
  by (induction names arbitrary: acc) (simp_all add: folder_file_aligned)

lemma folder_dirs_aligned:
  "one_vector_per_text e \<Longrightarrow> aligned (fst acc)
   \<Longrightarrow> aligned (fst (foldl (folder_dir e exts) acc walk))"
proof (induction walk arbitrary: acc)
  case Nil
  then show ?case by simp
next
  case (Cons entry walk)
  obtain dirpath dirs names where entry: "entry = (dirpath, dirs, names)" by (cases entry)
  from Cons.prems have "aligned (fst (folder_dir e exts acc entry))"
    by (simp add: folder_dir_def entry folder_files_aligned)
  with Cons show ?case by simp
qed

lemma add_folder_aligned:
  assumes "one_vector_per_text e" "aligned st"
  shows "aligned (fst (add_documents_from_folder e st folder tree exts))"
  using assms folder_dirs_aligned[of e "(st, Inr [])"]
  by (simp add: add_documents_from_folder_def)


lemma save_index_state: "fst (snd (save_index e fs st path)) = st"
  by (simp add: save_index_def Let_def split: option.splits)

lemma load_index_aligned:
  assumes "aligned st" "pair_aligned fs path"
  shows "aligned (fst (load_index fs st path))"
  using assms
  by (auto simp: load_index_def pair_aligned_def aligned_def index_vecs_def ntotal_def Let_def
           split: option.splits)

subsection \<open>Persistence\<close>

lemma suffix_distinct:
  "ascii ''.json'' \<noteq> ascii ''.index''" "ascii ''.index'' \<noteq> ascii ''.json''"
  by (simp_all add: ascii_def)

lemma save_index_written:
  assumes "snd (snd (save_index e fs st path))"
  shows "\<exists>ix. index st = Some ix \<and>
           read_index (fst (save_index e fs st path)) (path @ ascii ''.index'') = Some ix \<and>
           (\<exists>data. json_load (fst (save_index e fs st path)) (path @ ascii ''.json'') = Some data \<and>
              sc_documents data = Some (documents st) \<and>
              sc_metadata data = Some (document_metadata st))"
proof (cases "index st")
  case None
  with assms show ?thesis by (simp add: save_index_def)
next
  case (Some ix)
  with assms have ok: "makedirs_ok fs path" "write_ok fs (path @ ascii ''.index'')"
    "write_ok fs (path @ ascii ''.json'')"
    by (auto simp: save_index_def Let_def split: if_splits)
  with Some show ?thesis
    by (simp add: save_index_def Let_def read_index_def json_load_def write_file_def suffix_distinct)
qed

lemma load_index_readable:
  assumes "read_index fs (path @ ascii ''.index'') = Some ix"
    "json_load fs (path @ ascii ''.json'') = Some data"
    "sc_documents data = Some docs" "sc_metadata data = Some metas"
  shows "load_index fs st path =
           (st\<lparr>index := Some ix, documents := docs, document_metadata := metas\<rparr>, True)"
  using assms by (simp add: load_index_def)

subsection \<open>Evaluating the concrete inputs\<close>

lemmas search_eval = search_def get_embeddings_def rows_of_def faiss_search_def
    search_row_def ntotal_def l2sq_def py_getitem_def FLT_MAX_def

lemma load_mismatch:
  "load_index fs_mismatch (init (ascii ''model'')) (ascii ''idx/main'') =
     ((init (ascii ''model''))\<lparr>index := Some \<lparr>d = 1, vecs = [[210], [263]]\<rparr>,
        documents := [ascii ''Hi!''], document_metadata := [Map.empty]\<rparr>, True)"
  by (simp add: load_index_def read_index_def json_load_def fs_mismatch_def fs_empty_def ascii_def)

lemma load_blob_only:
  "load_index fs_blob_only (init (ascii ''model'')) (ascii ''idx/main'') =
     ((init (ascii ''model''))\<lparr>index := Some \<lparr>d = 1, vecs = [[210], [263]]\<rparr>\<rparr>, False)"
  by (simp add: load_index_def read_index_def json_load_def fs_blob_only_def fs_empty_def ascii_def)

lemmas chunk_eval = split_text_def stripped_nonempty_def re_split_sentences_def pack_def
  pack_step_def flush_def strip_def lstrip_def rstrip_def py_isspace_def sentence_final_def Let_def

lemma demo_extract:
  "extract_text_from_file env_demo (ascii ''a.txt'') = Inr (ascii ''Hi! Yo?'')"
  by (simp add: extract_text_from_file_def extract_text_from_txt_def endswith_def py_lower_def
        lower_cp_def env_demo_def ascii_def)

lemma demo_split: "split_text env_demo (ascii ''Hi! Yo?'') 500 = Inr [ascii ''Hi! Yo?'']"
  by (simp add: chunk_eval env_demo_def ascii_def)

lemma offline_split: "split_text env_offline (ascii ''Hi! Yo?'') 500 = Inr [ascii ''Hi! Yo?'']"
  by (simp add: chunk_eval env_demo_def env_offline_def ascii_def)

lemma offline_extract:
  "extract_text_from_file env_offline (ascii ''a.txt'') = Inr (ascii ''Hi! Yo?'')"
  by (simp add: extract_text_from_file_def extract_text_from_txt_def endswith_def py_lower_def
        lower_cp_def env_demo_def env_offline_def ascii_def)

lemma offline_embed: "get_embeddings env_offline texts = Inl EmbeddingFailed"
  by (simp add: get_embeddings_def env_offline_def)

lemma demo_embed:
  "get_embeddings env_demo [ascii ''Hi! Yo?''] = Inr ([1, 1], Arr [Arr [Num 505]])"
  by (simp add: get_embeddings_def env_demo_def ascii_def)

lemma nested_extract:
  "extract_text_from_file env_nested (ascii ''a.txt'') = Inr (ascii ''Hi! Yo?'')"
  by (simp add: extract_text_from_file_def extract_text_from_txt_def endswith_def py_lower_def
        lower_cp_def env_demo_def env_nested_def ascii_def)

lemma nested_split: "split_text env_nested (ascii ''Hi! Yo?'') 500 = Inr [ascii ''Hi! Yo?'']"
  by (simp add: chunk_eval env_demo_def env_nested_def ascii_def)

lemma nested_embed:
  "get_embeddings env_nested [ascii ''Hi! Yo?''] = Inr ([1, 1, 1], Arr [Arr [Arr [Num 1]]])"
  by (simp add: get_embeddings_def env_nested_def)

lemma long_split:
  "split_text env_demo long_text 8 = Inr [ascii ''Hi! Yo?'', ascii ''What a long one!'']"
  by (simp add: chunk_eval env_demo_def long_text_def ascii_def)

lemma long_sentences:
  "packed_sentences env_demo long_text = [ascii ''Hi!'', ascii ''Yo?'', ascii ''What a long one!'']"
  by (simp add: packed_sentences_def chunk_eval env_demo_def long_text_def ascii_def)

lemmas folder_eval = add_documents_from_folder_def folder_dir_def folder_file_def matches_def
  endswith_def py_lower_def lower_cp_def os_path_join_def default_extensions_def

lemmas add_eval = add_document_def shape1_def faiss_add_def IndexFlatL2_def rows_of_def Let_def

lemma demo_extract_paths:
  "extract_text_from_file env_demo (ascii ''docs/a.txt'') = Inr (ascii ''Hi! Yo?'')"
  "extract_text_from_file env_demo (ascii ''docs/c.pdf'') = Inl ExtractionFailed"
  "extract_text_from_file env_demo (ascii ''docs/sub/D.TXT'') = Inr (ascii ''Hi! Yo?'')"
  by (simp_all add: extract_text_from_file_def extract_text_from_txt_def extract_text_from_pdf_def
        endswith_def py_lower_def lower_cp_def env_demo_def ascii_def)

section \<open>The claims\<close>

subsection \<open>C1: a search asking for more results than there are chunks\<close>

text \<open>
  C1 says that \<open>search(query, k)\<close> with \<open>k\<close> above the corpus size returns at most
  corpus-size entries, each for a real stored position, with no padding. The vector index
  answers such a search with \<open>k\<close> labels, the missing ones being \<open>-1\<close>. The loop keeps a
  label when \<open>idx < len(self.documents)\<close>, which \<open>-1\<close> satisfies, and \<open>documents[-1]\<close>
  is the last chunk. On an engine of two chunks, \<open>search("Hi!", 5)\<close> therefore returns
  five entries: the two chunks, then the last chunk three more times with the largest
  float as score.
\<close>

theorem search_pads_with_last_document:
  "map_sum id (map (\<lambda>r. (document r, score r))) (search env_demo two_chunks (ascii ''Hi!'') 5) =
     Inr [(ascii ''Hi!'', 0), (ascii ''Yo?'', 2809), (ascii ''Yo?'', FLT_MAX),
          (ascii ''Yo?'', FLT_MAX), (ascii ''Yo?'', FLT_MAX)] \<and>
   length (documents two_chunks) = 2"
  by (simp add: search_eval env_demo_def two_chunks_def ascii_def eval_nat_numeral)

subsection \<open>C2: restoring a pair of artifacts of different sizes\<close>

text \<open>
  C2 (as amended): \<open>load_index\<close> returns success exactly when the vector blob can be
  read and the sidecar can be read and has both its \<open>documents\<close> and its \<open>metadata\<close>
  key; the state is then the blob's index with the sidecar's two lists, whatever their
  sizes. No comparison of the number of vectors with the number of documents is made.
\<close>

theorem load_index_ignores_cardinality:
  "snd (load_index fs st path) \<longleftrightarrow>
     (\<exists>ix data docs metas.
        read_index fs (path @ ascii ''.index'') = Some ix \<and>
        json_load fs (path @ ascii ''.json'') = Some data \<and>
        sc_documents data = Some docs \<and> sc_metadata data = Some metas \<and>
        fst (load_index fs st path) =
          st\<lparr>index := Some ix, documents := docs, document_metadata := metas\<rparr>)"
  by (auto simp: load_index_def Let_def split: option.splits)

text \<open>
  The amended statement at the pair with two vectors and one document: the restore
  succeeds and installs both as they are.
\<close>

theorem load_index_ignores_cardinality_witness:
  "snd (load_index fs_mismatch (init (ascii ''model'')) (ascii ''idx/main'')) \<and>
   fst (load_index fs_mismatch (init (ascii ''model'')) (ascii ''idx/main'')) =
     (init (ascii ''model''))\<lparr>index := Some \<lparr>d = 1, vecs = [[210], [263]]\<rparr>,
        documents := [ascii ''Hi!''], document_metadata := [Map.empty]\<rparr>"
proof -
  have ri: "read_index fs_mismatch (ascii ''idx/main'' @ ascii ''.index'') =
              Some \<lparr>d = 1, vecs = [[210], [263]]\<rparr>"
    by (simp add: read_index_def fs_mismatch_def fs_empty_def ascii_def)
  have js: "json_load fs_mismatch (ascii ''idx/main'' @ ascii ''.json'') =
              Some \<lparr>sc_documents = Some [ascii ''Hi!''], sc_metadata = Some [Map.empty],
                    sc_saved_date = ascii ''2024-01-01T00:00:00'',
                    sc_embedding_model = ascii ''model''\<rparr>"
    by (simp add: json_load_def fs_mismatch_def fs_empty_def ascii_def)
  have "\<exists>ix data docs metas.
        read_index fs_mismatch (ascii ''idx/main'' @ ascii ''.index'') = Some ix \<and>
        json_load fs_mismatch (ascii ''idx/main'' @ ascii ''.json'') = Some data \<and>
        sc_documents data = Some docs \<and> sc_metadata data = Some metas \<and>
        fst (load_index fs_mismatch (init (ascii ''model'')) (ascii ''idx/main'')) =
          (init (ascii ''model''))\<lparr>index := Some ix, documents := docs, document_metadata := metas\<rparr>"
    using ri js by (simp add: load_index_def)
  then have "snd (load_index fs_mismatch (init (ascii ''model'')) (ascii ''idx/main''))"
    by (simp only: load_index_ignores_cardinality[of fs_mismatch "init (ascii ''model'')" "ascii ''idx/main''"])
  then show ?thesis by (simp add: load_mismatch)
qed

text \<open>
  C2 as stated fails: the pair holds two vectors and one document, \<open>load_index\<close> returns
  \<open>True\<close>, and the engine is left with two vectors for one document.
\<close>

theorem load_index_mismatch_counterexample:
  "snd (load_index fs_mismatch (init (ascii ''model'')) (ascii ''idx/main'')) \<and>
   length (index_vecs (fst (load_index fs_mismatch (init (ascii ''model'')) (ascii ''idx/main'')))) = 2 \<and>
   length (documents (fst (load_index fs_mismatch (init (ascii ''model'')) (ascii ''idx/main'')))) = 1"
  by (simp add: load_mismatch index_vecs_def)

subsection \<open>C3: the state after a failed save or restore\<close>

text \<open>
  C3 (as amended): \<open>save_index\<close> never changes the in-memory state, on any outcome. A
  \<open>load_index\<close> that returns failure leaves the state as it was only when the vector blob
  could not be read. Once the blob is read the in-memory index is the blob's: documents
  and metadata are as before when the sidecar is missing, unparsable or without a
  \<open>documents\<close> key, and the documents are the sidecar's as well when only its
  \<open>metadata\<close> key is missing. The metadata list is unchanged by every failed restore.
\<close>

theorem failed_persistence_state:
  "fst (snd (save_index e fs st path)) = st \<and>
   (\<not> snd (load_index fs st path) \<longrightarrow>
      fst (load_index fs st path) =
        (case read_index fs (path @ ascii ''.index'') of
           None \<Rightarrow> st
         | Some ix \<Rightarrow>
             (case Option.bind (json_load fs (path @ ascii ''.json'')) sc_documents of
                None \<Rightarrow> st\<lparr>index := Some ix\<rparr>
              | Some docs \<Rightarrow> st\<lparr>index := Some ix, documents := docs\<rparr>)))"
  by (auto simp: save_index_state load_index_def Let_def split: option.splits)

text \<open>
  The amended statement on the disk that holds the blob alone, from a fresh engine: the
  restore fails and the engine now holds the blob's index; saving a fresh engine fails
  and leaves it fresh.
\<close>

theorem failed_persistence_state_witness:
  "\<not> snd (load_index fs_blob_only (init (ascii ''model'')) (ascii ''idx/main'')) \<and>
   fst (load_index fs_blob_only (init (ascii ''model'')) (ascii ''idx/main'')) =
     (init (ascii ''model''))\<lparr>index := Some \<lparr>d = 1, vecs = [[210], [263]]\<rparr>\<rparr> \<and>
   fst (snd (save_index env_demo fs_blob_only (init (ascii ''model'')) (ascii ''idx/main''))) =
     init (ascii ''model'')"
proof -
  have f: "\<not> snd (load_index fs_blob_only (init (ascii ''model'')) (ascii ''idx/main''))"
    by (simp add: load_blob_only)
  have ri: "read_index fs_blob_only (ascii ''idx/main'' @ ascii ''.index'') =
              Some \<lparr>d = 1, vecs = [[210], [263]]\<rparr>"
    by (simp add: read_index_def fs_blob_only_def fs_empty_def ascii_def)
  have js: "json_load fs_blob_only (ascii ''idx/main'' @ ascii ''.json'') = None"
    by (simp add: json_load_def fs_blob_only_def fs_empty_def ascii_def)
  from failed_persistence_state[of env_demo fs_blob_only "init (ascii ''model'')"
       "ascii ''idx/main''"] f
  show ?thesis by (simp add: ri js)
qed

text \<open>
  C3 as stated fails: the same restore returns failure and the in-memory state is not
  what it was before the call.
\<close>

theorem load_index_partial_counterexample:
  "\<not> snd (load_index fs_blob_only (init (ascii ''model'')) (ascii ''idx/main'')) \<and>
   fst (load_index fs_blob_only (init (ascii ''model'')) (ascii ''idx/main'')) \<noteq>
     init (ascii ''model'')"
  unfolding load_blob_only by (simp add: init_def)

subsection \<open>C4: the state after ingesting one file\<close>

text \<open>
  C4 (as amended): when \<open>add_document\<close> raises, the documents and the metadata are
  exactly as before the call, and so is the index, with one exception: when the engine had
  no index and the exception is the one \<open>index.add\<close> raises on unpacking the shape of
  the embeddings (the service's entries were themselves lists of lists, which
  \<open>get_embeddings\<close> lets through), \<open>self.index\<close> has been replaced by a new, empty
  index. A failure of the extraction, of the segmenter or of \<open>get_embeddings\<close> leaves
  the whole state unchanged. When the call returns, the text was extracted, split and
  embedded, the chunks were appended to the documents, one metadata dict per chunk was
  appended to the metadata, the rows of the embedding were appended to the index, and the
  result reports the number of chunks and the new total.
\<close>

theorem add_document_outcome:
  "case add_document e st path meta of
     (st', Inl err) \<Rightarrow>
       (if index st = None \<and> err = ShapeError
        then (\<exists>dimension. st' = st\<lparr>index := Some (IndexFlatL2 dimension)\<rparr>)
        else st' = st)
   | (st', Inr r) \<Rightarrow>
       (\<exists>text chunks x.
           extract_text_from_file e path = Inr text \<and>
           split_text e text 500 = Inr chunks \<and>
           get_embeddings e chunks = Inr x \<and>
           index st' \<noteq> None \<and>
           index_vecs st' = index_vecs st @ rows_of x \<and>
           documents st' = documents st @ chunks \<and>
           document_metadata st' =
             document_metadata st @ map (chunk_metadata e path meta) [0..<length chunks] \<and>
           embedding_model st' = embedding_model st \<and>
           r = \<lparr>file_path = path, chunk_count = length chunks,
                total_chunks = length (documents st) + length chunks\<rparr>)"
proof (cases "add_document e st path meta")
  case (Pair st' out)
  show ?thesis
  proof (cases out)
    case (Inl err)
    with Pair add_document_failure_exact[of e st path meta st' err] show ?thesis by simp
  next
    case (Inr r)
    with Pair add_document_success[of e st path meta st' r] show ?thesis by simp
  qed
qed

text \<open>
  Both outcomes on the engine of two chunks: with the embedding service unreachable the
  call raises and the engine is unchanged; with the service answering, one chunk, one
  vector and one metadata entry are added.
\<close>

theorem add_document_outcome_witness:
  "snd (add_document env_offline two_chunks (ascii ''a.txt'') None) = Inl EmbeddingFailed \<and>
   fst (add_document env_offline two_chunks (ascii ''a.txt'') None) = two_chunks \<and>
   snd (add_document env_demo two_chunks (ascii ''a.txt'') None) =
     Inr \<lparr>file_path = ascii ''a.txt'', chunk_count = 1, total_chunks = 3\<rparr> \<and>
   documents (fst (add_document env_demo two_chunks (ascii ''a.txt'') None)) =
     [ascii ''Hi!'', ascii ''Yo?'', ascii ''Hi! Yo?''] \<and>
   index_vecs (fst (add_document env_demo two_chunks (ascii ''a.txt'') None)) =
     [[210], [263], [505]] \<and>
   length (document_metadata (fst (add_document env_demo two_chunks (ascii ''a.txt'') None))) = 3"
proof -
  have off: "snd (add_document env_offline two_chunks (ascii ''a.txt'') None) = Inl EmbeddingFailed"
    by (simp add: add_document_def offline_extract offline_split offline_embed)
  obtain st1 where p1: "add_document env_offline two_chunks (ascii ''a.txt'') None =
      (st1, Inl EmbeddingFailed)"
    using off by (metis prod.collapse)
  from add_document_outcome[where e = env_offline and st = two_chunks and path = "ascii ''a.txt''"
         and meta = None] p1
  have a: "st1 = two_chunks" by simp
  have on: "snd (add_document env_demo two_chunks (ascii ''a.txt'') None) =
     Inr \<lparr>file_path = ascii ''a.txt'', chunk_count = 1, total_chunks = 3\<rparr>"
    by (simp add: add_document_def demo_extract demo_split demo_embed faiss_add_def
          two_chunks_def Let_def)
  obtain st2 where p2: "add_document env_demo two_chunks (ascii ''a.txt'') None =
      (st2, Inr \<lparr>file_path = ascii ''a.txt'', chunk_count = 1, total_chunks = 3\<rparr>)"
    using on by (metis prod.collapse)
  from add_document_outcome[where e = env_demo and st = two_chunks and path = "ascii ''a.txt''"
         and meta = None] p2
  have b: "documents st2 = documents two_chunks @ [ascii ''Hi! Yo?''] \<and>
           index_vecs st2 = index_vecs two_chunks @ [[505]] \<and>
           length (document_metadata st2) = length (document_metadata two_chunks) + 1"
    by (auto simp: demo_extract demo_split demo_embed rows_of_def)
  have c: "documents two_chunks = [ascii ''Hi!'', ascii ''Yo?'']"
    "index_vecs two_chunks = [[210], [263]]" "length (document_metadata two_chunks) = 2"
    by (simp_all add: two_chunks_def index_vecs_def)
  from p1 a p2 b c show ?thesis by simp
qed

text \<open>
  C4 as stated fails: on a fresh engine, with a service whose entries are lists of lists,
  \<open>add_document\<close> raises and the engine is no longer as before the call: it holds an
  empty index of dimension 1, and its status reads as initialized.
\<close>

theorem add_document_nested_reply_counterexample:
  "snd (add_document env_nested (init (ascii ''model'')) (ascii ''a.txt'') None) = Inl ShapeError \<and>
   fst (add_document env_nested (init (ascii ''model'')) (ascii ''a.txt'') None) \<noteq>
     init (ascii ''model'') \<and>
   index (fst (add_document env_nested (init (ascii ''model'')) (ascii ''a.txt'') None)) =
     Some \<lparr>d = 1, vecs = []\<rparr> \<and>
   status (get_index_status
            (fst (add_document env_nested (init (ascii ''model'')) (ascii ''a.txt'') None))) =
     status_initialized"
proof -
  have "add_document env_nested (init (ascii ''model'')) (ascii ''a.txt'') None =
          ((init (ascii ''model''))\<lparr>index := Some \<lparr>d = 1, vecs = []\<rparr>\<rparr>, Inl ShapeError)"
    by (simp add: add_document_def nested_extract nested_split nested_embed shape1_def
          faiss_add_def IndexFlatL2_def init_def Let_def)
  then show ?thesis by (simp add: init_def get_index_status_def Let_def)
qed

subsection \<open>C5: the chunks of \<open>split_text\<close>\<close>

text \<open>
  C5 (as amended): the chunks \<open>split_text\<close> returns are the packed sentences, packed
  greedily. For every text and every \<open>chunk_size\<close> that is not negative, every
  chunk is non-empty after trimming and no longer than
  \<open>chunk_size\<close> plus the length of one of the packed sentences, and every packed
  sentence longer than \<open>chunk_size\<close> is a chunk of its own, unsplit. The last part
  holds for a negative \<open>chunk_size\<close> too.
\<close>

theorem split_text_chunks:
  assumes ok: "split_text e text chunk_size = Inr chunks" and nonneg: "0 \<le> chunk_size"
  shows "chunks = flush (pack chunk_size ([], []) (packed_sentences e text)) \<and>
         (\<forall>c\<in>set chunks.
            strip c \<noteq> [] \<and>
            (\<exists>s\<in>set (packed_sentences e text).
               int (length c) \<le> chunk_size + int (length s))) \<and>
         (\<forall>s\<in>set (packed_sentences e text).
            chunk_size < int (length s) \<longrightarrow> s \<in> set chunks)"
proof -
  let ?S = "packed_sentences e text"
  have tr: "\<forall>s\<in>set ?S. trimmed s"
    by (auto simp: packed_sentences_def dest: stripped_nonempty_trimmed split: option.splits if_splits)
  have ch: "chunks = flush (pack chunk_size ([], []) ?S)"
    using ok by (rule split_text_packed)
  have inv: "pack_inv chunk_size (set ?S) (pack chunk_size ([], []) ?S)"
    using tr by (intro pack_inv_foldl) (auto simp: pack_inv_def)
  have "over_inv chunk_size ({} \<union> set ?S) (pack chunk_size ([], []) ?S)"
    using tr by (intro over_inv_foldl) (auto simp: over_inv_def)
  then have ov: "over_inv chunk_size (set ?S) (pack chunk_size ([], []) ?S)" by simp
  have a: "strip c \<noteq> [] \<and> (\<exists>s\<in>set ?S. int (length c) \<le> chunk_size + int (length s))"
    if c: "c \<in> set chunks" for c
  proof -
    from c ch inv have g: "good chunk_size (set ?S) c" by (auto intro: flush_good)
    then have t: "trimmed c" by (simp add: good_def)
    then have st: "strip c \<noteq> []" by (simp add: strip_trimmed trimmed_def)
    from c ch have "?S \<noteq> []" using flush_empty_iff[of chunk_size ?S] by auto
    then obtain s0 where s0: "s0 \<in> set ?S" by (cases ?S) auto
    from g have "int (length c) \<le> chunk_size \<or> c \<in> set ?S" by (simp add: good_def)
    then have "\<exists>s\<in>set ?S. int (length c) \<le> chunk_size + int (length s)"
    proof
      assume "int (length c) \<le> chunk_size"
      then have "int (length c) \<le> chunk_size + int (length s0)" by simp
      with s0 show ?thesis by blast
    next
      assume "c \<in> set ?S"
      moreover have "int (length c) \<le> chunk_size + int (length c)" using nonneg by simp
      ultimately show ?thesis by blast
    qed
    with st show ?thesis by simp
  qed
  have b: "s \<in> set chunks" if "s \<in> set ?S" "chunk_size < int (length s)" for s
    using ov tr that ch by (auto intro: flush_over)
  from ch a b show ?thesis by blast
qed

text \<open>
  The amended statement on a text of three sentences with \<open>chunk_size = 8\<close>: the two
  short sentences share a chunk and the long one is a chunk by itself.
\<close>

theorem split_text_chunks_witness:
  "split_text env_demo long_text 8 = Inr [ascii ''Hi! Yo?'', ascii ''What a long one!''] \<and>
   (0::int) \<le> 8 \<and>
   strip (ascii ''Hi! Yo?'') \<noteq> [] \<and> strip (ascii ''What a long one!'') \<noteq> [] \<and>
   packed_sentences env_demo long_text =
     [ascii ''Hi!'', ascii ''Yo?'', ascii ''What a long one!''] \<and>
   8 < int (length (ascii ''What a long one!'')) \<and>
   ascii ''What a long one!'' \<in> set [ascii ''Hi! Yo?'', ascii ''What a long one!'']"
proof -
  have nonneg: "(0::int) \<le> 8" by simp
  have over: "8 < int (length (ascii ''What a long one!''))" by (simp add: ascii_def)
  from split_text_chunks[OF long_split nonneg, THEN conjunct2]
  have "strip (ascii ''Hi! Yo?'') \<noteq> [] \<and> strip (ascii ''What a long one!'') \<noteq> []"
    and "ascii ''What a long one!'' \<in> set [ascii ''Hi! Yo?'', ascii ''What a long one!'']"
    by simp_all
  with long_split long_sentences nonneg over show ?thesis by simp
qed

text \<open>
  C5 as stated, for every \<open>chunk_size\<close>, fails at \<open>chunk_size = -1\<close>: each of the two
  sentences becomes a chunk of length 2, and no sentence \<open>s\<close> has
  \<open>2 \<le> -1 + len(s)\<close>.
\<close>

theorem split_text_negative_size_counterexample:
  "split_text env_demo (ascii ''a!b!'') (- 1) = Inr [ascii ''a!'', ascii ''b!''] \<and>
   packed_sentences env_demo (ascii ''a!b!'') = [ascii ''a!'', ascii ''b!''] \<and>
   \<not> (\<exists>s\<in>set (packed_sentences env_demo (ascii ''a!b!'')).
         int (length (ascii ''a!'')) \<le> - 1 + int (length s))"
proof -
  have a: "split_text env_demo (ascii ''a!b!'') (- 1) = Inr [ascii ''a!'', ascii ''b!'']"
    by (simp add: chunk_eval env_demo_def ascii_def)
  have b: "packed_sentences env_demo (ascii ''a!b!'') = [ascii ''a!'', ascii ''b!'']"
    by (simp add: packed_sentences_def chunk_eval env_demo_def ascii_def)
  show ?thesis unfolding a b by (simp add: ascii_def)
qed

subsection \<open>C6: positional alignment\<close>

text \<open>
  C6 (as amended): provided the embedding service returns one vector per input text, the
  numbers of documents, of metadata entries and of vectors are equal in every state
  reached from a fresh engine by \<open>add_document\<close>, \<open>add_documents_from_folder\<close>,
  \<open>clear_index\<close>, \<open>save_index\<close> and by those calls of \<open>load_index\<close> that read an
  artifact pair which is itself aligned (\<open>search\<close> and \<open>get_index_status\<close> assign
  nothing). A call of \<open>load_index\<close> on any other pair can break the equality.
\<close>

theorem alignment_invariant:
  assumes "one_vector_per_text e" "reachable e st"
  shows "aligned st"
  using assms(2)
proof induction
  case (r_init model)
  show ?case by (simp add: aligned_def init_def index_vecs_def)
next
  case (r_add_document st path meta)
  with assms(1) show ?case by (simp add: add_document_aligned)
next
  case (r_add_folder st folder tree exts)
  with assms(1) show ?case by (simp add: add_folder_aligned)
next
  case (r_clear st)
  show ?case by (simp add: clear_index_def aligned_def index_vecs_def)
next
  case (r_save st fs path)
  then show ?case by (simp add: save_index_state)
next
  case (r_load st fs path)
  then show ?case by (simp add: load_index_aligned)
qed

text \<open>
  The amended statement on the state a fresh engine reaches by ingesting one text file.
\<close>

theorem alignment_invariant_witness:
  "one_vector_per_text env_demo \<and>
   reachable env_demo (fst (add_document env_demo (init (ascii ''model'')) (ascii ''a.txt'') None)) \<and>
   aligned (fst (add_document env_demo (init (ascii ''model'')) (ascii ''a.txt'') None)) \<and>
   documents (fst (add_document env_demo (init (ascii ''model'')) (ascii ''a.txt'') None)) =
     [ascii ''Hi! Yo?'']"
proof -
  have e: "one_vector_per_text env_demo"
    by (auto simp: one_vector_per_text_def env_demo_def)
  have r: "reachable env_demo
             (fst (add_document env_demo (init (ascii ''model'')) (ascii ''a.txt'') None))"
    by (intro reachable.intros)
  have d: "documents (fst (add_document env_demo (init (ascii ''model'')) (ascii ''a.txt'') None)) =
     [ascii ''Hi! Yo?'']"
    by (simp add: add_document_def demo_extract demo_split demo_embed shape1_def faiss_add_def
          IndexFlatL2_def rows_of_def init_def Let_def)
  from alignment_invariant[OF e r] e r d show ?thesis by simp
qed

text \<open>
  C6 as stated fails: a fresh engine is aligned, and the successful restore of the pair
  with two vectors and one document leaves it misaligned.
\<close>

theorem load_index_misaligned_counterexample:
  "aligned (init (ascii ''model'')) \<and>
   snd (load_index fs_mismatch (init (ascii ''model'')) (ascii ''idx/main'')) \<and>
   \<not> aligned (fst (load_index fs_mismatch (init (ascii ''model'')) (ascii ''idx/main'')))"
  unfolding load_mismatch by (simp add: aligned_def index_vecs_def init_def)

subsection \<open>C7: the report of folder ingestion\<close>

text \<open>
  C7 says that folder ingestion processes exactly the files whose name ends, without
  regard to case, with one of the configured extensions. The test is
  \<open>file.lower().endswith(ext)\<close>: the file name is lower-cased and the extension is not,
  so a configured extension with an upper-case letter matches no file at all. With
  \<open>['.PDF']\<close> configured, the file \<open>a.PDF\<close>, whose name ends with that very extension,
  is skipped and the report is empty.
\<close>

theorem folder_skips_uppercase_extension:
  "endswith (ascii ''a.PDF'') (ascii ''.PDF'') \<and>
   snd (add_documents_from_folder env_demo (init (ascii ''model'')) (ascii ''docs'')
          (Some (Dir [ascii ''a.PDF''] [])) (Some [ascii ''.PDF''])) = Inr []"
  by (simp add: folder_eval ascii_def)

text \<open>
  With the default extensions and a console that prints, the report is what C7 says: in
  the folder of four files the Markdown file gives no record, the corrupt PDF gives an
  error record, and the text file of the subfolder is reached and matched in spite of its
  upper-case name.
\<close>

lemma folder_demo_report:
  "map_sum id (map (\<lambda>r. (record_path r, record_status r)))
     (snd (add_documents_from_folder env_demo (init (ascii ''model'')) (ascii ''docs'')
             (Some tree_demo) None)) =
   Inr [(ascii ''docs/a.txt'', ascii ''success''),
        (ascii ''docs/c.pdf'', ascii ''error''),
        (ascii ''docs/sub/D.TXT'', ascii ''success'')]"
proof -
  have paths: "os_path_join (ascii ''docs'') (ascii ''a.txt'') = ascii ''docs/a.txt''"
    "os_path_join (ascii ''docs'') (ascii ''c.pdf'') = ascii ''docs/c.pdf''"
    "os_path_join (ascii ''docs'') (ascii ''sub'') = ascii ''docs/sub''"
    "os_path_join (ascii ''docs/sub'') (ascii ''D.TXT'') = ascii ''docs/sub/D.TXT''"
    by (simp_all add: os_path_join_def ascii_def)
  have m: "matches default_extensions (ascii ''a.txt'')"
    "\<not> matches default_extensions (ascii ''b.md'')"
    "matches default_extensions (ascii ''c.pdf'')"
    "matches default_extensions (ascii ''D.TXT'')"
    by (simp_all add: matches_def default_extensions_def endswith_def py_lower_def lower_cp_def
          ascii_def)
  have p: "print_ok env_demo f out" for f out by (simp add: env_demo_def)
  show ?thesis
    by (simp add: add_documents_from_folder_def folder_dir_def folder_file_def tree_demo_def
          paths m p add_document_def demo_extract_paths demo_split demo_embed shape1_def
          faiss_add_def IndexFlatL2_def init_def Let_def)
qed

text \<open>
  A second way the report departs from C7: when the console accepts no line, the
  success line raises inside the \<open>try\<close>, the handler adds an error record for the file
  that was just ingested, its own line raises too, and the walk ends with that exception
  and no report, the file's chunk staying in the engine.
\<close>

lemma folder_print_failure_aborts:
  "snd (add_documents_from_folder env_mute (init (ascii ''model'')) (ascii ''docs'')
          (Some (Dir [ascii ''a.txt'', ascii ''b.txt''] [])) None) = Inl PrintFailed \<and>
   documents (fst (add_documents_from_folder env_mute (init (ascii ''model'')) (ascii ''docs'')
          (Some (Dir [ascii ''a.txt'', ascii ''b.txt''] [])) None)) = [ascii ''Hi! Yo?'']"
proof -
  have paths: "os_path_join (ascii ''docs'') (ascii ''a.txt'') = ascii ''docs/a.txt''"
    by (simp add: os_path_join_def ascii_def)
  have m: "matches default_extensions (ascii ''a.txt'')"
    by (simp add: matches_def default_extensions_def endswith_def py_lower_def lower_cp_def
          ascii_def)
  have p: "\<not> print_ok env_mute f out" for f out by (simp add: env_mute_def)
  have x: "extract_text_from_file env_mute (ascii ''docs/a.txt'') = Inr (ascii ''Hi! Yo?'')"
    by (simp add: extract_text_from_file_def extract_text_from_txt_def endswith_def py_lower_def
          lower_cp_def env_demo_def env_mute_def ascii_def)
  have sp: "split_text env_mute (ascii ''Hi! Yo?'') 500 = Inr [ascii ''Hi! Yo?'']"
    by (simp add: chunk_eval env_demo_def env_mute_def ascii_def)
  have em: "get_embeddings env_mute [ascii ''Hi! Yo?''] = Inr ([1, 1], Arr [Arr [Num 505]])"
    by (simp add: get_embeddings_def env_demo_def env_mute_def ascii_def)
  show ?thesis
    by (simp add: add_documents_from_folder_def folder_dir_def folder_file_def
          paths m p add_document_def x sp em shape1_def
          faiss_add_def IndexFlatL2_def init_def Let_def)
qed

subsection \<open>C8: saving and restoring\<close>

text \<open>
  C8: when \<open>save_index\<close> succeeds, \<open>load_index\<close> with the same prefix on the resulting
  disk succeeds from any engine state and installs the saved index, documents and
  metadata, in order; the status computed afterwards (document count, file count,
  dimension, per-file counts) is the status of the saved engine.
\<close>

theorem persist_restore_roundtrip:
  assumes "snd (snd (save_index e fs st path))"
  shows "load_index (fst (save_index e fs st path)) st0 path =
           (st0\<lparr>index := index st, documents := documents st,
                document_metadata := document_metadata st\<rparr>, True) \<and>
         get_index_status (fst (load_index (fst (save_index e fs st path)) st0 path)) =
           get_index_status st"
proof -
  from save_index_written[OF assms] obtain ix data where
    w: "index st = Some ix"
       "read_index (fst (save_index e fs st path)) (path @ ascii ''.index'') = Some ix"
       "json_load (fst (save_index e fs st path)) (path @ ascii ''.json'') = Some data"
       "sc_documents data = Some (documents st)"
       "sc_metadata data = Some (document_metadata st)"
    by blast
  have l: "load_index (fst (save_index e fs st path)) st0 path =
         (st0\<lparr>index := Some ix, documents := documents st,
              document_metadata := document_metadata st\<rparr>, True)"
    using w(2-5) by (rule load_index_readable)
  with w(1) show ?thesis by (simp add: get_index_status_def)
qed

text \<open>
  The engine of two chunks, saved to the empty disk and restored into a fresh engine.
\<close>

theorem persist_restore_roundtrip_witness:
  "snd (snd (save_index env_demo fs_empty two_chunks (ascii ''idx/main''))) \<and>
   load_index (fst (save_index env_demo fs_empty two_chunks (ascii ''idx/main'')))
     (init (ascii ''model'')) (ascii ''idx/main'') = (two_chunks, True) \<and>
   document_count (get_index_status two_chunks) = 2 \<and>
   file_count (get_index_status two_chunks) = 2"
proof -
  have s: "snd (snd (save_index env_demo fs_empty two_chunks (ascii ''idx/main'')))"
    by (simp add: save_index_def two_chunks_def fs_empty_def Let_def)
  have eq: "(init (ascii ''model''))\<lparr>index := index two_chunks, documents := documents two_chunks,
                document_metadata := document_metadata two_chunks\<rparr> = two_chunks"
    by (simp add: init_def two_chunks_def)
  have st: "document_count (get_index_status two_chunks) = 2 \<and>
            file_count (get_index_status two_chunks) = 2"
    by (simp add: get_index_status_def two_chunks_def count_files_def ascii_def)
  from persist_restore_roundtrip[OF s, of "init (ascii ''model'')"] eq s st
  show ?thesis by simp
qed

subsection \<open>C9: clearing\<close>

text \<open>
  C9: after \<open>clear_index\<close> the status is the uninitialized one, with all three numbers
  zero, from any prior state, and clearing again gives the same result.
\<close>

theorem clear_index_status:
  "get_index_status (fst (clear_index st)) =
     \<lparr>status = status_uninitialized, document_count = 0, file_count = 0,
      dimension = 0, file_stats = None\<rparr> \<and>
   clear_index (fst (clear_index st)) = clear_index st"
  by (simp add: clear_index_def get_index_status_def)

text \<open>
  On the engine of two chunks: two documents before, none after.
\<close>

theorem clear_index_status_witness:
  "document_count (get_index_status two_chunks) = 2 \<and>
   document_count (get_index_status (fst (clear_index two_chunks))) = 0 \<and>
   status (get_index_status (fst (clear_index two_chunks))) = status_uninitialized"
proof -
  have "document_count (get_index_status two_chunks) = 2"
    by (simp add: get_index_status_def two_chunks_def Let_def)
  with clear_index_status[of two_chunks] show ?thesis by simp
qed

subsection \<open>C10: the metadata \<open>build_index\<close> stores\<close>

text \<open>
  C10: when \<open>build_index\<close> returns on a non-empty document list, it has stored the
  documents and, as metadata, the caller's list as it is when that list is non-empty,
  whatever its length, and one empty dict per document when the list is absent or
  empty.
\<close>

theorem build_index_metadata:
  assumes "docs \<noteq> []" "snd (build_index e st docs meta) = Inr ()"
  shows "documents (fst (build_index e st docs meta)) = docs \<and>
         document_metadata (fst (build_index e st docs meta)) =
           (case meta of
              None \<Rightarrow> replicate (length docs) Map.empty
            | Some m \<Rightarrow> if m = [] then replicate (length docs) Map.empty else m)"
  using assms
  by (auto simp: build_index_def Let_def map_replicate_const split: sum.splits option.splits)

text \<open>
  Two documents with a metadata list of one entry: the call returns and the engine holds
  two documents and one metadata entry.
\<close>

theorem build_index_metadata_witness:
  "[ascii ''Hi!'', ascii ''Yo?''] \<noteq> [] \<and>
   snd (build_index env_demo (init (ascii ''model'')) [ascii ''Hi!'', ascii ''Yo?'']
          (Some [[ascii ''source'' \<mapsto> VStr (ascii ''memo'')]])) = Inr () \<and>
   length (documents (fst (build_index env_demo (init (ascii ''model'')) [ascii ''Hi!'', ascii ''Yo?'']
          (Some [[ascii ''source'' \<mapsto> VStr (ascii ''memo'')]])))) = 2 \<and>
   length (document_metadata (fst (build_index env_demo (init (ascii ''model'')) [ascii ''Hi!'', ascii ''Yo?'']
          (Some [[ascii ''source'' \<mapsto> VStr (ascii ''memo'')]])))) = 1"
proof -
  have ne: "[ascii ''Hi!'', ascii ''Yo?''] \<noteq> []" by simp
  have ok: "snd (build_index env_demo (init (ascii ''model'')) [ascii ''Hi!'', ascii ''Yo?'']
          (Some [[ascii ''source'' \<mapsto> VStr (ascii ''memo'')]])) = Inr ()"
    by (simp add: build_index_def get_embeddings_def rows_of_def shape1_def faiss_add_def
          IndexFlatL2_def env_demo_def Let_def)
  from build_index_metadata[OF ne ok] ne ok show ?thesis by simp
qed

end
